theory Spec2Isabelle
  imports Main
begin

section \<open>Data model\<close>

text \<open>
  Embedding of the account orchestration of the Tessa API: the \<^verbatim>\<open>User\<close> and
  \<^verbatim>\<open>Owner\<close> collections, the two account services, the Firebase plugin, the
  \<^verbatim>\<open>UserOrchestrator\<close> and the owner deletion handler.

  An \<^verbatim>\<open>ObjectId\<close> is a natural number and a \<^verbatim>\<open>Date\<close> a number of
  milliseconds. \<^verbatim>\<open>id.toString()\<close> is injective, so a Firebase uid is the
  \<^verbatim>\<open>ObjectId\<close> it was printed from.
\<close>

type_synonym ObjectId = nat
type_synonym Date = nat

datatype UserRole = MANAGER | EMPLOYEE

datatype Role = OWNER

text \<open>
  \<^verbatim>\<open>interface IUser\<close> and \<^verbatim>\<open>interface IOwner\<close>: a field declared with
  \<^verbatim>\<open>?\<close> is an option, \<open>None\<close> when the object has no such key.
\<close>

record IUser =
  u_id :: "ObjectId option"
  u_ownerId :: ObjectId
  u_name :: string
  u_password :: "string option"
  u_email :: string
  u_role :: UserRole
  u_createdAt :: "Date option"

record IOwner =
  o_id :: "ObjectId option"
  o_name :: string
  o_email :: string
  o_role :: "Role option"
  o_createdAt :: "Date option"

text \<open>The argument of \<^verbatim>\<open>createOwnerWithFirebase\<close>: name, email and password.\<close>

record OwnerData =
  od_name :: string
  od_email :: string
  od_password :: string

text \<open>
  The documents of \<^verbatim>\<open>UserSchema\<close> and \<^verbatim>\<open>OwnerSchema\<close>: exactly the declared
  paths, and the two dates of \<^verbatim>\<open>timestamps: true\<close>. Neither schema has a
  password path.
\<close>

record UserDoc =
  ud_id :: ObjectId
  ud_name :: string
  ud_ownerId :: ObjectId
  ud_email :: string
  ud_role :: UserRole
  ud_createdAt :: Date
  ud_updatedAt :: Date

record OwnerDoc =
  wd_id :: ObjectId
  wd_name :: string
  wd_email :: string
  wd_role :: Role
  wd_createdAt :: Date
  wd_updatedAt :: Date

text \<open>
  Errors: the repository's \<^verbatim>\<open>ApiError(statusCode, message)\<close>, and what the MongoDB
  driver, Mongoose and the Firebase Admin SDK throw by themselves.
\<close>

datatype error =
    ApiError nat string
  | MongoError string
  | FirebaseError string

text \<open>\<^verbatim>\<open>error.message\<close>.\<close>

fun message :: "error \<Rightarrow> string" where
  "message (ApiError c m) = m"
| "message (MongoError m) = m"
| "message (FirebaseError m) = m"

text \<open>The calls the Firebase Admin SDK receives, in the order they were made.\<close>

datatype idp_call =
    AuthCreateUser ObjectId string "string option" string
  | AuthSetCustomUserClaims ObjectId string
  | AuthDeleteUser ObjectId

fun is_setCustomUserClaims :: "idp_call \<Rightarrow> bool" where
  "is_setCustomUserClaims (AuthSetCustomUserClaims _ _) = True"
| "is_setCustomUserClaims _ = False"

section \<open>The world outside the process\<close>

text \<open>
  Every \<^verbatim>\<open>await\<close> on Mongoose or on the Firebase Admin SDK is one remote call. What
  the remote side answers is not decided by the program: \<open>script\<close> lists, for the
  calls still to come, whether the call goes through and how many milliseconds have
  passed when it is served. A call that goes through to MongoDB runs on the collection;
  one that does not is rejected by the driver. A Firebase call has no other outcome
  than the scripted one. With the script used up, calls go through and the clock
  stands still.
\<close>

datatype outcome = Succeeds | Fails

record world =
  users :: "UserDoc list"
  owners :: "OwnerDoc list"
  idp_calls :: "idp_call list"
  clock :: Date
  script :: "(outcome \<times> nat) list"

definition remote :: "world \<Rightarrow> outcome \<times> world" where
  "remote w =
     (case script w of
        [] \<Rightarrow> (Succeeds, w)
      | (r, dt) # rest \<Rightarrow> (r, w\<lparr>clock := clock w + dt, script := rest\<rparr>))"

definition unreachable :: error where
  "unreachable = MongoError ''MongoNetworkError''"

definition duplicate_key :: error where
  "duplicate_key = MongoError ''E11000 duplicate key error''"

definition validation_failed :: error where
  "validation_failed = MongoError ''ValidationError''"

section \<open>The collections\<close>

text \<open>
  \<^verbatim>\<open>Model.create\<close>: Mongoose validates the required paths (a required string must
  not be empty, the \<^verbatim>\<open>_id\<close> must be there), stamps \<^verbatim>\<open>createdAt\<close> unless the
  object brings one, stamps \<^verbatim>\<open>updatedAt\<close>, and inserts; MongoDB rejects a second
  document with the same \<^verbatim>\<open>_id\<close> or, by the unique index, the same email. Keys
  that are not schema paths (a password) are dropped.
\<close>

definition User_create_doc :: "IUser \<Rightarrow> Date \<Rightarrow> UserDoc list \<Rightarrow> error + UserDoc" where
  "User_create_doc user t us =
     (case u_id user of
        None \<Rightarrow> Inl validation_failed
      | Some i \<Rightarrow>
          if u_name user = [] \<or> u_email user = [] then Inl validation_failed
          else if find (\<lambda>d. ud_id d = i) us \<noteq> None
                  \<or> find (\<lambda>d. ud_email d = u_email user) us \<noteq> None
          then Inl duplicate_key
          else Inr \<lparr>ud_id = i, ud_name = u_name user, ud_ownerId = u_ownerId user,
                    ud_email = u_email user, ud_role = u_role user,
                    ud_createdAt = (case u_createdAt user of None \<Rightarrow> t | Some c \<Rightarrow> c),
                    ud_updatedAt = t\<rparr>)"

definition Owner_create_doc :: "IOwner \<Rightarrow> Date \<Rightarrow> OwnerDoc list \<Rightarrow> error + OwnerDoc" where
  "Owner_create_doc owner t os =
     (case o_id owner of
        None \<Rightarrow> Inl validation_failed
      | Some i \<Rightarrow>
          if o_name owner = [] \<or> o_email owner = [] then Inl validation_failed
          else if find (\<lambda>d. wd_id d = i) os \<noteq> None
                  \<or> find (\<lambda>d. wd_email d = o_email owner) os \<noteq> None
          then Inl duplicate_key
          else Inr \<lparr>wd_id = i, wd_name = o_name owner, wd_email = o_email owner,
                    wd_role = (case o_role owner of None \<Rightarrow> OWNER | Some r \<Rightarrow> r),
                    wd_createdAt = (case o_createdAt owner of None \<Rightarrow> t | Some c \<Rightarrow> c),
                    wd_updatedAt = t\<rparr>)"

text \<open>\<^verbatim>\<open>toObject()\<close> and \<^verbatim>\<open>lean()\<close>: the stored document as a plain object.\<close>

definition User_toObject :: "UserDoc \<Rightarrow> IUser" where
  "User_toObject d =
     \<lparr>u_id = Some (ud_id d), u_ownerId = ud_ownerId d, u_name = ud_name d,
      u_password = None, u_email = ud_email d, u_role = ud_role d,
      u_createdAt = Some (ud_createdAt d)\<rparr>"

definition Owner_toObject :: "OwnerDoc \<Rightarrow> IOwner" where
  "Owner_toObject d =
     \<lparr>o_id = Some (wd_id d), o_name = wd_name d, o_email = wd_email d,
      o_role = Some (wd_role d), o_createdAt = Some (wd_createdAt d)\<rparr>"

text \<open>The keys of the plain object, as \<^verbatim>\<open>res.json\<close> would print them.\<close>

definition IUser_keys :: "IUser \<Rightarrow> string list" where
  "IUser_keys u =
     (if u_id u = None then [] else [''_id'']) @ [''ownerId'', ''name'']
     @ (if u_password u = None then [] else [''password'']) @ [''email'', ''role'']
     @ (if u_createdAt u = None then [] else [''createdAt''])"

definition IOwner_keys :: "IOwner \<Rightarrow> string list" where
  "IOwner_keys x =
     (if o_id x = None then [] else [''_id'']) @ [''name'', ''email'']
     @ (if o_role x = None then [] else [''role''])
     @ (if o_createdAt x = None then [] else [''createdAt''])"

text \<open>\<^verbatim>\<open>findByIdAndDelete\<close> removes the document with that \<^verbatim>\<open>_id\<close>.\<close>

fun remove_user :: "ObjectId \<Rightarrow> UserDoc list \<Rightarrow> UserDoc list" where
  "remove_user i [] = []"
| "remove_user i (d # ds) = (if ud_id d = i then ds else d # remove_user i ds)"

fun remove_owner :: "ObjectId \<Rightarrow> OwnerDoc list \<Rightarrow> OwnerDoc list" where
  "remove_owner i [] = []"
| "remove_owner i (d # ds) = (if wd_id d = i then ds else d # remove_owner i ds)"

text \<open>\<^verbatim>\<open>findByIdAndUpdate(id, { role }, { new: true })\<close>.\<close>

fun set_user_role :: "ObjectId \<Rightarrow> UserRole \<Rightarrow> Date \<Rightarrow> UserDoc list \<Rightarrow> UserDoc list" where
  "set_user_role i r t [] = []"
| "set_user_role i r t (d # ds) =
     (if ud_id d = i then d\<lparr>ud_role := r, ud_updatedAt := t\<rparr> # ds
      else d # set_user_role i r t ds)"

text \<open>The Mongoose calls the services make, each one remote call.\<close>

definition User_findOne_email :: "string \<Rightarrow> world \<Rightarrow> (error + UserDoc option) \<times> world" where
  "User_findOne_email e w =
     (case remote w of
        (Fails, w') \<Rightarrow> (Inl unreachable, w')
      | (Succeeds, w') \<Rightarrow> (Inr (find (\<lambda>d. ud_email d = e) (users w')), w'))"

definition User_create :: "IUser \<Rightarrow> world \<Rightarrow> (error + UserDoc) \<times> world" where
  "User_create user w =
     (case remote w of
        (Fails, w') \<Rightarrow> (Inl unreachable, w')
      | (Succeeds, w') \<Rightarrow>
          (case User_create_doc user (clock w') (users w') of
             Inl e \<Rightarrow> (Inl e, w')
           | Inr d \<Rightarrow> (Inr d, w'\<lparr>users := users w' @ [d]\<rparr>)))"

definition User_findById :: "ObjectId \<Rightarrow> world \<Rightarrow> (error + UserDoc option) \<times> world" where
  "User_findById i w =
     (case remote w of
        (Fails, w') \<Rightarrow> (Inl unreachable, w')
      | (Succeeds, w') \<Rightarrow> (Inr (find (\<lambda>d. ud_id d = i) (users w')), w'))"

definition User_findByIdAndUpdate ::
  "ObjectId \<Rightarrow> UserRole \<Rightarrow> world \<Rightarrow> (error + UserDoc option) \<times> world" where
  "User_findByIdAndUpdate i r w =
     (case remote w of
        (Fails, w') \<Rightarrow> (Inl unreachable, w')
      | (Succeeds, w') \<Rightarrow>
          (let us = set_user_role i r (clock w') (users w')
           in (Inr (find (\<lambda>d. ud_id d = i) us), w'\<lparr>users := us\<rparr>)))"

definition User_findByIdAndDelete :: "ObjectId \<Rightarrow> world \<Rightarrow> (error + UserDoc option) \<times> world" where
  "User_findByIdAndDelete i w =
     (case remote w of
        (Fails, w') \<Rightarrow> (Inl unreachable, w')
      | (Succeeds, w') \<Rightarrow>
          (Inr (find (\<lambda>d. ud_id d = i) (users w')), w'\<lparr>users := remove_user i (users w')\<rparr>))"

definition Owner_findOne_email :: "string \<Rightarrow> world \<Rightarrow> (error + OwnerDoc option) \<times> world" where
  "Owner_findOne_email e w =
     (case remote w of
        (Fails, w') \<Rightarrow> (Inl unreachable, w')
      | (Succeeds, w') \<Rightarrow> (Inr (find (\<lambda>d. wd_email d = e) (owners w')), w'))"

definition Owner_create :: "IOwner \<Rightarrow> world \<Rightarrow> (error + OwnerDoc) \<times> world" where
  "Owner_create owner w =
     (case remote w of
        (Fails, w') \<Rightarrow> (Inl unreachable, w')
      | (Succeeds, w') \<Rightarrow>
          (case Owner_create_doc owner (clock w') (owners w') of
             Inl e \<Rightarrow> (Inl e, w')
           | Inr d \<Rightarrow> (Inr d, w'\<lparr>owners := owners w' @ [d]\<rparr>)))"

definition Owner_findById :: "ObjectId \<Rightarrow> world \<Rightarrow> (error + OwnerDoc option) \<times> world" where
  "Owner_findById i w =
     (case remote w of
        (Fails, w') \<Rightarrow> (Inl unreachable, w')
      | (Succeeds, w') \<Rightarrow> (Inr (find (\<lambda>d. wd_id d = i) (owners w')), w'))"

definition Owner_findByIdAndDelete :: "ObjectId \<Rightarrow> world \<Rightarrow> (error + OwnerDoc option) \<times> world" where
  "Owner_findByIdAndDelete i w =
     (case remote w of
        (Fails, w') \<Rightarrow> (Inl unreachable, w')
      | (Succeeds, w') \<Rightarrow>
          (Inr (find (\<lambda>d. wd_id d = i) (owners w')), w'\<lparr>owners := remove_owner i (owners w')\<rparr>))"

section \<open>UserService\<close>

definition UserService_createUser :: "IUser \<Rightarrow> world \<Rightarrow> (error + IUser) \<times> world" where
  "UserService_createUser user w =
     (case User_findOne_email (u_email user) w of
        (Inl e, w1) \<Rightarrow> (Inl e, w1)
      | (Inr (Some existingUser), w1) \<Rightarrow>
          (Inl (ApiError 409 ''User with this email already exists''), w1)
      | (Inr None, w1) \<Rightarrow>
          (case User_create user w1 of
             (Inl e, w2) \<Rightarrow> (Inl e, w2)
           | (Inr userCreated, w2) \<Rightarrow> (Inr (User_toObject userCreated), w2)))"

definition UserService_getUserById :: "ObjectId \<Rightarrow> world \<Rightarrow> (error + IUser) \<times> world" where
  "UserService_getUserById i w =
     (case User_findById i w of
        (Inl e, w1) \<Rightarrow> (Inl e, w1)
      | (Inr None, w1) \<Rightarrow> (Inl (ApiError 404 ''User not found''), w1)
      | (Inr (Some user), w1) \<Rightarrow> (Inr (User_toObject user), w1))"

definition UserService_updateUserRole ::
  "ObjectId \<Rightarrow> UserRole \<Rightarrow> world \<Rightarrow> (error + IUser) \<times> world" where
  "UserService_updateUserRole i r w =
     (case User_findByIdAndUpdate i r w of
        (Inl e, w1) \<Rightarrow> (Inl e, w1)
      | (Inr None, w1) \<Rightarrow> (Inl (ApiError 404 ''User not found''), w1)
      | (Inr (Some user), w1) \<Rightarrow> (Inr (User_toObject user), w1))"

definition UserService_deleteUser :: "ObjectId \<Rightarrow> world \<Rightarrow> (error + unit) \<times> world" where
  "UserService_deleteUser i w =
     (case User_findByIdAndDelete i w of
        (Inl e, w1) \<Rightarrow> (Inl e, w1)
      | (Inr None, w1) \<Rightarrow> (Inl (ApiError 404 ''User not found''), w1)
      | (Inr (Some user), w1) \<Rightarrow> (Inr (), w1))"

section \<open>OwnerService\<close>

definition OwnerService_createOwner :: "IOwner \<Rightarrow> world \<Rightarrow> (error + IOwner) \<times> world" where
  "OwnerService_createOwner owner w =
     (case Owner_findOne_email (o_email owner) w of
        (Inl e, w1) \<Rightarrow> (Inl e, w1)
      | (Inr (Some existingOwner), w1) \<Rightarrow>
          (Inl (ApiError 409 ''User with this email already exists''), w1)
      | (Inr None, w1) \<Rightarrow>
          (case Owner_create owner w1 of
             (Inl e, w2) \<Rightarrow> (Inl e, w2)
           | (Inr OwnerCreated, w2) \<Rightarrow> (Inr (Owner_toObject OwnerCreated), w2)))"

definition OwnerService_getOwnerById :: "ObjectId \<Rightarrow> world \<Rightarrow> (error + IOwner) \<times> world" where
  "OwnerService_getOwnerById i w =
     (case Owner_findById i w of
        (Inl e, w1) \<Rightarrow> (Inl e, w1)
      | (Inr None, w1) \<Rightarrow> (Inl (ApiError 404 ''User not found''), w1)
      | (Inr (Some owner), w1) \<Rightarrow> (Inr (Owner_toObject owner), w1))"

definition OwnerService_deleteOwner :: "ObjectId \<Rightarrow> world \<Rightarrow> (error + unit) \<times> world" where
  "OwnerService_deleteOwner i w =
     (case Owner_findByIdAndDelete i w of
        (Inl e, w1) \<Rightarrow> (Inl e, w1)
      | (Inr None, w1) \<Rightarrow> (Inl (ApiError 404 ''User not found''), w1)
      | (Inr (Some owner), w1) \<Rightarrow> (Inr (), w1))"

section \<open>The Firebase plugin\<close>

text \<open>
  The \<^verbatim>\<open>userData\<close> object handed to \<^verbatim>\<open>createUser\<close>. The plugin passes it on
  and lets the SDK's error through; only \<^verbatim>\<open>setCustomClaims\<close> catches and throws an
  \<^verbatim>\<open>ApiError\<close> of its own.
\<close>

record UserData =
  fb_uid :: ObjectId
  fb_email :: string
  fb_password :: "string option"
  fb_displayName :: string

definition auth_error :: error where
  "auth_error = FirebaseError ''FirebaseAuthError''"

definition Firebase_createUser :: "UserData \<Rightarrow> world \<Rightarrow> (error + ObjectId) \<times> world" where
  "Firebase_createUser userData w =
     (case remote (w\<lparr>idp_calls := idp_calls w @
                      [AuthCreateUser (fb_uid userData) (fb_email userData)
                         (fb_password userData) (fb_displayName userData)]\<rparr>) of
        (Fails, w1) \<Rightarrow> (Inl auth_error, w1)
      | (Succeeds, w1) \<Rightarrow> (Inr (fb_uid userData), w1))"

definition Firebase_setCustomClaims :: "ObjectId \<Rightarrow> string \<Rightarrow> world \<Rightarrow> (error + unit) \<times> world" where
  "Firebase_setCustomClaims uid r w =
     (case remote (w\<lparr>idp_calls := idp_calls w @ [AuthSetCustomUserClaims uid r]\<rparr>) of
        (Fails, w1) \<Rightarrow> (Inl (ApiError 500 ''Error setting custom claims''), w1)
      | (Succeeds, w1) \<Rightarrow> (Inr (), w1))"

definition Firebase_deleteUser :: "ObjectId \<Rightarrow> world \<Rightarrow> (error + unit) \<times> world" where
  "Firebase_deleteUser uid w =
     (case remote (w\<lparr>idp_calls := idp_calls w @ [AuthDeleteUser uid]\<rparr>) of
        (Fails, w1) \<Rightarrow> (Inl auth_error, w1)
      | (Succeeds, w1) \<Rightarrow> (Inr (), w1))"

section \<open>UserOrchestrator\<close>

text \<open>
  \<^verbatim>\<open>new Types.ObjectId()\<close> is the argument \<open>userId\<close>. A \<^verbatim>\<open>try\<close> block is the
  chain of \<open>Inr\<close> branches, its \<^verbatim>\<open>catch\<close> the \<open>Inl\<close> branches; an error
  thrown inside the \<^verbatim>\<open>catch\<close> block leaves the function as it is.
\<close>

definition failed_to_create :: error where
  "failed_to_create = ApiError 500 ''Failed to create user''"

definition failed_to_delete :: error where
  "failed_to_delete = ApiError 500 ''Failed to delete user''"

definition data_inconsistency :: error where
  "data_inconsistency =
     ApiError 500 ''Failed to delete user and rollback failed. Data inconsistency detected.''"

definition createEmployeeWithFirebase ::
  "IUser \<Rightarrow> ObjectId \<Rightarrow> world \<Rightarrow> (error + IUser) \<times> world" where
  "createEmployeeWithFirebase data userId w =
     (case UserService_createUser
             \<lparr>u_id = Some userId, u_ownerId = u_ownerId data, u_name = u_name data,
              u_password = None, u_email = u_email data, u_role = u_role data,
              u_createdAt = None\<rparr> w of
        (Inl e, w1) \<Rightarrow> (Inl failed_to_create, w1)
      | (Inr createdUser, w1) \<Rightarrow>
          (case Firebase_createUser
                  \<lparr>fb_uid = userId, fb_email = u_email data,
                   fb_password = u_password data, fb_displayName = u_name data\<rparr> w1 of
             (Inr userRecord, w2) \<Rightarrow> (Inr createdUser, w2)
           | (Inl e, w2) \<Rightarrow>
               (case UserService_deleteUser userId w2 of
                  (Inl e', w3) \<Rightarrow> (Inl e', w3)
                | (Inr u, w3) \<Rightarrow> (Inl failed_to_create, w3))))"

definition createOwnerWithFirebase ::
  "OwnerData \<Rightarrow> ObjectId \<Rightarrow> world \<Rightarrow> (error + IOwner) \<times> world" where
  "createOwnerWithFirebase data userId w =
     (case OwnerService_createOwner
             \<lparr>o_id = Some userId, o_name = od_name data, o_email = od_email data,
              o_role = None, o_createdAt = None\<rparr> w of
        (Inl e, w1) \<Rightarrow> (Inl failed_to_create, w1)
      | (Inr createdOwner, w1) \<Rightarrow>
          (case Firebase_createUser
                  \<lparr>fb_uid = userId, fb_email = od_email data,
                   fb_password = Some (od_password data), fb_displayName = od_name data\<rparr> w1 of
             (Inr userRecord, w2) \<Rightarrow> (Inr createdOwner, w2)
           | (Inl e, w2) \<Rightarrow>
               (case UserService_deleteUser userId w2 of
                  (Inl e', w3) \<Rightarrow> (Inl e', w3)
                | (Inr u, w3) \<Rightarrow> (Inl failed_to_create, w3))))"

text \<open>
  The object rebuilt from the fetched record in the \<^verbatim>\<open>catch\<close> block of the delete
  workflows: the listed keys only.
\<close>

definition user_snapshot :: "IUser \<Rightarrow> IUser" where
  "user_snapshot deletedUser =
     \<lparr>u_id = u_id deletedUser, u_ownerId = u_ownerId deletedUser,
      u_name = u_name deletedUser, u_password = None, u_email = u_email deletedUser,
      u_role = u_role deletedUser, u_createdAt = None\<rparr>"

definition owner_snapshot :: "IOwner \<Rightarrow> IOwner" where
  "owner_snapshot deletedOwner =
     \<lparr>o_id = o_id deletedOwner, o_name = o_name deletedOwner,
      o_email = o_email deletedOwner, o_role = None, o_createdAt = None\<rparr>"

definition deleteUser :: "ObjectId \<Rightarrow> world \<Rightarrow> (error + unit) \<times> world" where
  "deleteUser i w =
     (case UserService_getUserById i w of
        (Inl e, w1) \<Rightarrow> (Inl failed_to_delete, w1)
      | (Inr user, w1) \<Rightarrow>
          (case UserService_deleteUser i w1 of
             (Inl e, w2) \<Rightarrow> (Inl failed_to_delete, w2)
           | (Inr u, w2) \<Rightarrow>
               (case Firebase_deleteUser i w2 of
                  (Inr u', w3) \<Rightarrow> (Inr (), w3)
                | (Inl e, w3) \<Rightarrow>
                    (case UserService_createUser (user_snapshot user) w3 of
                       (Inl rollbackError, w4) \<Rightarrow> (Inl data_inconsistency, w4)
                     | (Inr r, w4) \<Rightarrow> (Inl failed_to_delete, w4)))))"

definition deleteOwner :: "ObjectId \<Rightarrow> world \<Rightarrow> (error + unit) \<times> world" where
  "deleteOwner i w =
     (case OwnerService_getOwnerById i w of
        (Inl e, w1) \<Rightarrow> (Inl failed_to_delete, w1)
      | (Inr owner, w1) \<Rightarrow>
          (case OwnerService_deleteOwner i w1 of
             (Inl e, w2) \<Rightarrow> (Inl failed_to_delete, w2)
           | (Inr u, w2) \<Rightarrow>
               (case Firebase_deleteUser i w2 of
                  (Inr u', w3) \<Rightarrow> (Inr (), w3)
                | (Inl e, w3) \<Rightarrow>
                    (case OwnerService_createOwner (owner_snapshot owner) w3 of
                       (Inl rollbackError, w4) \<Rightarrow> (Inl data_inconsistency, w4)
                     | (Inr r, w4) \<Rightarrow> (Inl failed_to_delete, w4)))))"

section \<open>OwnerController.delete\<close>

text \<open>
  The handler calls \<^verbatim>\<open>UserOrchestrator.deleteOwner(id)\<close> without \<^verbatim>\<open>await\<close> and
  sends the response in the same turn: the promise is dropped, so neither its value
  nor its rejection reaches the handler. The workflow still runs, and its effect on
  the stores is the world the handler leaves behind. The request reaches the handler
  only with an id that \<^verbatim>\<open>isMongoId\<close> accepted.
\<close>

record Response =
  status :: nat
  body :: "string option"

definition OwnerController_delete :: "ObjectId \<Rightarrow> world \<Rightarrow> Response \<times> world" where
  "OwnerController_delete i w =
     (case deleteOwner i w of
        (promise, w') \<Rightarrow> (\<lparr>status = 204, body = None\<rparr>, w'))"

section \<open>Concrete accounts and worlds\<close>

text \<open>The inputs at which the theorems below are evaluated.\<close>

definition alice :: IUser where
  "alice = \<lparr>u_id = None, u_ownerId = 3, u_name = ''Alice'',
            u_password = Some ''SecurePass123!'', u_email = ''alice@example.com'',
            u_role = EMPLOYEE, u_createdAt = None\<rparr>"

definition john :: OwnerData where
  "john = \<lparr>od_name = ''John Doe'', od_email = ''john@example.com'',
           od_password = ''SecurePass123!''\<rparr>"

definition alice_doc :: UserDoc where
  "alice_doc = \<lparr>ud_id = 7, ud_name = ''Alice'', ud_ownerId = 3,
                ud_email = ''alice@example.com'', ud_role = EMPLOYEE,
                ud_createdAt = 50, ud_updatedAt = 50\<rparr>"

definition john_doc :: OwnerDoc where
  "john_doc = \<lparr>wd_id = 3, wd_name = ''John Doe'', wd_email = ''john@example.com'',
               wd_role = OWNER, wd_createdAt = 40, wd_updatedAt = 40\<rparr>"

text \<open>Empty collections, nothing scripted: every remote call goes through.\<close>

definition w_empty :: world where
  "w_empty = \<lparr>users = [], owners = [], idp_calls = [], clock = 100, script = []\<rparr>"

text \<open>John owns an account and Alice is his employee.\<close>

definition w_accounts :: world where
  "w_accounts = \<lparr>users = [alice_doc], owners = [john_doc], idp_calls = [],
                  clock = 100, script = []\<rparr>"

text \<open>
  Two scripts. In the first the third remote call fails: in a create workflow that is
  the Firebase call after \<^verbatim>\<open>findOne\<close> and \<^verbatim>\<open>create\<close>, in a delete workflow the
  Firebase call after \<^verbatim>\<open>findById\<close> and \<^verbatim>\<open>findByIdAndDelete\<close>. In the second
  the fourth call, the first one of the compensation, fails too.
\<close>

definition identity_down :: "(outcome \<times> nat) list" where
  "identity_down = [(Succeeds, 1), (Succeeds, 1), (Fails, 1)]"

definition identity_then_store_down :: "(outcome \<times> nat) list" where
  "identity_then_store_down = [(Succeeds, 1), (Succeeds, 1), (Fails, 1), (Fails, 1)]"

text \<open>A second owner, and the plain objects of the stored accounts.\<close>

definition mary :: OwnerData where
  "mary = \<lparr>od_name = ''Mary Roe'', od_email = ''mary@example.com'',
           od_password = ''SecurePass456!''\<rparr>"

definition alice_obj :: IUser where
  "alice_obj = \<lparr>u_id = Some 7, u_ownerId = 3, u_name = ''Alice'', u_password = None,
                u_email = ''alice@example.com'', u_role = EMPLOYEE, u_createdAt = Some 50\<rparr>"

definition john_obj :: IOwner where
  "john_obj = \<lparr>o_id = Some 3, o_name = ''John Doe'', o_email = ''john@example.com'',
               o_role = Some OWNER, o_createdAt = Some 40\<rparr>"

section \<open>What each call changes\<close>

lemmas mongoose_defs =
  User_findOne_email_def User_create_def User_findById_def User_findByIdAndDelete_def
  Owner_findOne_email_def Owner_create_def Owner_findById_def Owner_findByIdAndDelete_def

lemmas service_defs =
  UserService_createUser_def UserService_getUserById_def UserService_deleteUser_def
  OwnerService_createOwner_def OwnerService_getOwnerById_def OwnerService_deleteOwner_def

lemmas firebase_defs = Firebase_createUser_def Firebase_deleteUser_def

lemmas orchestrator_defs =
  createEmployeeWithFirebase_def createOwnerWithFirebase_def deleteUser_def deleteOwner_def
  user_snapshot_def owner_snapshot_def

lemmas error_defs =
  failed_to_create_def failed_to_delete_def data_inconsistency_def unreachable_def
  duplicate_key_def validation_failed_def auth_error_def

lemmas run_defs =
  orchestrator_defs service_defs mongoose_defs firebase_defs error_defs remote_def
  User_create_doc_def Owner_create_doc_def User_toObject_def Owner_toObject_def

lemmas input_defs =
  alice_def john_def alice_doc_def john_doc_def alice_obj_def john_obj_def
  w_empty_def w_accounts_def identity_down_def identity_then_store_down_def

lemmas service_splits = prod.splits sum.splits option.splits outcome.splits

lemma remote_frame:
  "remote w = (r, w') \<Longrightarrow>
     users w' = users w \<and> owners w' = owners w \<and> idp_calls w' = idp_calls w"
  by (auto simp: remote_def split: list.splits prod.splits)

subsection \<open>UserService\<close>

lemma UserService_createUser_Inl:
  "UserService_createUser u w = (Inl e, w') \<Longrightarrow>
     users w' = users w \<and> owners w' = owners w \<and> idp_calls w' = idp_calls w"
  by (auto simp: service_defs mongoose_defs dest!: remote_frame split: service_splits)

lemma UserService_createUser_Inr:
  "UserService_createUser u w = (Inr r, w') \<Longrightarrow>
     (\<exists>i. u_id u = Some i
        \<and> find (\<lambda>d. ud_id d = i) (users w) = None
        \<and> find (\<lambda>d. ud_email d = u_email u) (users w) = None
        \<and> users w' = users w @
             [\<lparr>ud_id = i, ud_name = u_name u, ud_ownerId = u_ownerId u,
               ud_email = u_email u, ud_role = u_role u,
               ud_createdAt = (case u_createdAt u of None \<Rightarrow> clock w' | Some c \<Rightarrow> c),
               ud_updatedAt = clock w'\<rparr>]
        \<and> r = User_toObject (last (users w')))
     \<and> owners w' = owners w \<and> idp_calls w' = idp_calls w"
  by (auto simp: service_defs mongoose_defs User_create_doc_def dest!: remote_frame
      split: service_splits if_splits)

lemma UserService_getUserById_Inl:
  "UserService_getUserById i w = (Inl e, w') \<Longrightarrow>
     users w' = users w \<and> owners w' = owners w \<and> idp_calls w' = idp_calls w"
  by (auto simp: service_defs mongoose_defs dest!: remote_frame split: service_splits)

lemma UserService_getUserById_Inr:
  "UserService_getUserById i w = (Inr r, w') \<Longrightarrow>
     (\<exists>d. find (\<lambda>d. ud_id d = i) (users w) = Some d \<and> r = User_toObject d)
     \<and> users w' = users w \<and> owners w' = owners w \<and> idp_calls w' = idp_calls w"
  by (auto simp: service_defs mongoose_defs dest!: remote_frame split: service_splits)

lemma UserService_deleteUser_Inl:
  "UserService_deleteUser i w = (Inl e, w') \<Longrightarrow>
     owners w' = owners w \<and> idp_calls w' = idp_calls w"
  by (auto simp: service_defs mongoose_defs dest!: remote_frame split: service_splits)

lemma UserService_deleteUser_Inr:
  "UserService_deleteUser i w = (Inr u, w') \<Longrightarrow>
     users w' = remove_user i (users w) \<and> owners w' = owners w \<and> idp_calls w' = idp_calls w"
  by (auto simp: service_defs mongoose_defs dest!: remote_frame split: service_splits)

lemma UserService_updateUserRole_frame:
  "UserService_updateUserRole i r w = (x, w') \<Longrightarrow>
     owners w' = owners w \<and> idp_calls w' = idp_calls w"
  by (auto simp: UserService_updateUserRole_def User_findByIdAndUpdate_def Let_def
      dest!: remote_frame split: service_splits)

subsection \<open>OwnerService\<close>

lemma OwnerService_createOwner_Inl:
  "OwnerService_createOwner x w = (Inl e, w') \<Longrightarrow>
     users w' = users w \<and> owners w' = owners w \<and> idp_calls w' = idp_calls w"
  by (auto simp: service_defs mongoose_defs dest!: remote_frame split: service_splits)

lemma OwnerService_createOwner_Inr:
  "OwnerService_createOwner x w = (Inr r, w') \<Longrightarrow>
     (\<exists>i. o_id x = Some i
        \<and> find (\<lambda>d. wd_id d = i) (owners w) = None
        \<and> find (\<lambda>d. wd_email d = o_email x) (owners w) = None
        \<and> owners w' = owners w @
             [\<lparr>wd_id = i, wd_name = o_name x, wd_email = o_email x,
               wd_role = (case o_role x of None \<Rightarrow> OWNER | Some r \<Rightarrow> r),
               wd_createdAt = (case o_createdAt x of None \<Rightarrow> clock w' | Some c \<Rightarrow> c),
               wd_updatedAt = clock w'\<rparr>]
        \<and> r = Owner_toObject (last (owners w')))
     \<and> users w' = users w \<and> idp_calls w' = idp_calls w"
  by (auto simp: service_defs mongoose_defs Owner_create_doc_def dest!: remote_frame
      split: service_splits if_splits)

lemma OwnerService_getOwnerById_Inl:
  "OwnerService_getOwnerById i w = (Inl e, w') \<Longrightarrow>
     users w' = users w \<and> owners w' = owners w \<and> idp_calls w' = idp_calls w"
  by (auto simp: service_defs mongoose_defs dest!: remote_frame split: service_splits)

lemma OwnerService_getOwnerById_Inr:
  "OwnerService_getOwnerById i w = (Inr r, w') \<Longrightarrow>
     (\<exists>d. find (\<lambda>d. wd_id d = i) (owners w) = Some d \<and> r = Owner_toObject d)
     \<and> users w' = users w \<and> owners w' = owners w \<and> idp_calls w' = idp_calls w"
  by (auto simp: service_defs mongoose_defs dest!: remote_frame split: service_splits)

lemma OwnerService_deleteOwner_Inl:
  "OwnerService_deleteOwner i w = (Inl e, w') \<Longrightarrow>
     users w' = users w \<and> idp_calls w' = idp_calls w"
  by (auto simp: service_defs mongoose_defs dest!: remote_frame split: service_splits)

lemma OwnerService_deleteOwner_Inr:
  "OwnerService_deleteOwner i w = (Inr u, w') \<Longrightarrow>
     owners w' = remove_owner i (owners w) \<and> users w' = users w \<and> idp_calls w' = idp_calls w"
  by (auto simp: service_defs mongoose_defs dest!: remote_frame split: service_splits)

subsection \<open>Firebase\<close>

lemma Firebase_createUser_frame:
  "Firebase_createUser d w = (x, w') \<Longrightarrow>
     users w' = users w \<and> owners w' = owners w \<and>
     idp_calls w' = idp_calls w @
       [AuthCreateUser (fb_uid d) (fb_email d) (fb_password d) (fb_displayName d)]"
  by (auto simp: firebase_defs dest!: remote_frame split: service_splits)

lemma Firebase_deleteUser_frame:
  "Firebase_deleteUser i w = (x, w') \<Longrightarrow>
     users w' = users w \<and> owners w' = owners w \<and>
     idp_calls w' = idp_calls w @ [AuthDeleteUser i]"
  by (auto simp: firebase_defs dest!: remote_frame split: service_splits)

text \<open>A call of \<^verbatim>\<open>setCustomClaims\<close> is recorded, whether Firebase accepts it or not.\<close>

lemma Firebase_setCustomClaims_recorded:
  "idp_calls (snd (Firebase_setCustomClaims uid r w)) =
     idp_calls w @ [AuthSetCustomUserClaims uid r]"
  by (auto simp: Firebase_setCustomClaims_def dest!: remote_frame split: service_splits)

subsection \<open>The calls a workflow makes to the identity provider\<close>

lemma UserService_idp_calls:
  "UserService_createUser u w = (x, w') \<Longrightarrow> idp_calls w' = idp_calls w"
  "UserService_getUserById i w = (y, w') \<Longrightarrow> idp_calls w' = idp_calls w"
  "UserService_deleteUser i w = (z, w') \<Longrightarrow> idp_calls w' = idp_calls w"
  by (auto simp: service_defs mongoose_defs dest!: remote_frame split: service_splits)

lemma OwnerService_idp_calls:
  "OwnerService_createOwner u w = (x, w') \<Longrightarrow> idp_calls w' = idp_calls w"
  "OwnerService_getOwnerById i w = (y, w') \<Longrightarrow> idp_calls w' = idp_calls w"
  "OwnerService_deleteOwner i w = (z, w') \<Longrightarrow> idp_calls w' = idp_calls w"
  by (auto simp: service_defs mongoose_defs dest!: remote_frame split: service_splits)

lemma createEmployeeWithFirebase_calls:
  "idp_calls (snd (createEmployeeWithFirebase data userId w)) = idp_calls w
   \<or> idp_calls (snd (createEmployeeWithFirebase data userId w)) =
        idp_calls w @ [AuthCreateUser userId (u_email data) (u_password data) (u_name data)]"
  by (auto simp: createEmployeeWithFirebase_def
      dest!: UserService_idp_calls Firebase_createUser_frame split: service_splits)

lemma createOwnerWithFirebase_calls:
  "idp_calls (snd (createOwnerWithFirebase data userId w)) = idp_calls w
   \<or> idp_calls (snd (createOwnerWithFirebase data userId w)) =
        idp_calls w @
          [AuthCreateUser userId (od_email data) (Some (od_password data)) (od_name data)]"
  by (auto simp: createOwnerWithFirebase_def
      dest!: UserService_idp_calls OwnerService_idp_calls Firebase_createUser_frame
      split: service_splits)

lemma deleteUser_calls:
  "idp_calls (snd (deleteUser i w)) = idp_calls w
   \<or> idp_calls (snd (deleteUser i w)) = idp_calls w @ [AuthDeleteUser i]"
  by (auto simp: deleteUser_def
      dest!: UserService_idp_calls Firebase_deleteUser_frame split: service_splits)

lemma deleteOwner_calls:
  "idp_calls (snd (deleteOwner i w)) = idp_calls w
   \<or> idp_calls (snd (deleteOwner i w)) = idp_calls w @ [AuthDeleteUser i]"
  by (auto simp: deleteOwner_def
      dest!: OwnerService_idp_calls Firebase_deleteUser_frame split: service_splits)

subsection \<open>Lookups\<close>

lemma find_snoc_fresh:
  "find P xs = None \<Longrightarrow> P x \<Longrightarrow> find P (xs @ [x]) = Some x"
  by (induction xs) (auto split: if_splits)

lemma find_Some_holds: "find P xs = Some x \<Longrightarrow> P x"
  by (induction xs) (auto split: if_splits)

lemma UserService_createUser_duplicate:
  "u_email u \<in> ud_email ` set (users w) \<Longrightarrow>
     \<exists>e w'. UserService_createUser u w = (Inl e, w')"
  by (auto simp: service_defs mongoose_defs find_None_iff dest!: remote_frame
      split: service_splits)

lemma OwnerService_createOwner_duplicate:
  "o_email x \<in> wd_email ` set (owners w) \<Longrightarrow>
     \<exists>e w'. OwnerService_createOwner x w = (Inl e, w')"
  by (auto simp: service_defs mongoose_defs find_None_iff dest!: remote_frame
      split: service_splits)

section \<open>No identity is created for an email already in use\<close>

text \<open>
  Claim C7. When the email of the account to create is already the email of a stored
  record of the same kind, the create workflow (User or Owner) makes no call to the
  identity provider at all, so in particular no \<^verbatim>\<open>createUser\<close> call: the list of
  calls the provider has received is the same after the workflow as before. This holds
  whatever the remote calls answer.
\<close>

theorem duplicate_email_makes_no_identity_call:
  "(u_email data \<in> ud_email ` set (users w) \<longrightarrow>
      idp_calls (snd (createEmployeeWithFirebase data userId w)) = idp_calls w)
   \<and> (od_email odata \<in> wd_email ` set (owners v) \<longrightarrow>
      idp_calls (snd (createOwnerWithFirebase odata ownerId v)) = idp_calls v)"
proof (intro conjI impI)
  assume "u_email data \<in> ud_email ` set (users w)"
  then obtain e w' where
    "UserService_createUser
       \<lparr>u_id = Some userId, u_ownerId = u_ownerId data, u_name = u_name data,
        u_password = None, u_email = u_email data, u_role = u_role data,
        u_createdAt = None\<rparr> w = (Inl e, w')"
    using UserService_createUser_duplicate
      [of "\<lparr>u_id = Some userId, u_ownerId = u_ownerId data, u_name = u_name data,
        u_password = None, u_email = u_email data, u_role = u_role data,
        u_createdAt = None\<rparr>" w]
    by auto
  then show "idp_calls (snd (createEmployeeWithFirebase data userId w)) = idp_calls w"
    by (auto simp: createEmployeeWithFirebase_def dest: UserService_createUser_Inl)
next
  assume "od_email odata \<in> wd_email ` set (owners v)"
  then obtain e v' where
    "OwnerService_createOwner
       \<lparr>o_id = Some ownerId, o_name = od_name odata, o_email = od_email odata,
        o_role = None, o_createdAt = None\<rparr> v = (Inl e, v')"
    using OwnerService_createOwner_duplicate
      [of "\<lparr>o_id = Some ownerId, o_name = od_name odata, o_email = od_email odata,
        o_role = None, o_createdAt = None\<rparr>" v]
    by auto
  then show "idp_calls (snd (createOwnerWithFirebase odata ownerId v)) = idp_calls v"
    by (auto simp: createOwnerWithFirebase_def dest: OwnerService_createOwner_Inl)
qed

text \<open>Alice and John are stored; a second Alice and a second John are refused.\<close>

theorem duplicate_email_makes_no_identity_call_witness:
  "u_email alice \<in> ud_email ` set (users w_accounts)
   \<and> idp_calls (snd (createEmployeeWithFirebase alice 8 w_accounts)) = idp_calls w_accounts
   \<and> od_email john \<in> wd_email ` set (owners w_accounts)
   \<and> idp_calls (snd (createOwnerWithFirebase john 9 w_accounts)) = idp_calls w_accounts"
  using duplicate_email_makes_no_identity_call [of alice w_accounts 8 john w_accounts 9]
  by (simp add: input_defs)

section \<open>The created record carries no password\<close>

text \<open>
  Claim C8. When a create workflow (User or Owner) succeeds, the record it returns has
  no password: for a User the optional \<^verbatim>\<open>password\<close> field is absent and the key
  \<^verbatim>\<open>password\<close> is not among the keys of the object, for an Owner the key
  \<^verbatim>\<open>password\<close> is not among the keys of the object. This holds for every input,
  so also when the input brings a password.
\<close>

theorem created_record_has_no_password:
  "(fst (createEmployeeWithFirebase data userId w) = Inr r \<longrightarrow>
      u_password r = None \<and> ''password'' \<notin> set (IUser_keys r))
   \<and> (fst (createOwnerWithFirebase odata ownerId v) = Inr r' \<longrightarrow>
      ''password'' \<notin> set (IOwner_keys r'))"
  by (auto simp: createEmployeeWithFirebase_def User_toObject_def IUser_keys_def
        IOwner_keys_def
      dest!: UserService_createUser_Inr split: service_splits)

text \<open>Alice and John are created with a password each; the records returned have none.\<close>

theorem created_record_has_no_password_witness:
  "u_password alice = Some ''SecurePass123!''
   \<and> fst (createEmployeeWithFirebase alice 7 w_empty) =
       Inr \<lparr>u_id = Some 7, u_ownerId = 3, u_name = ''Alice'', u_password = None,
            u_email = ''alice@example.com'', u_role = EMPLOYEE, u_createdAt = Some 100\<rparr>
   \<and> ''password'' \<notin> set (IUser_keys
         \<lparr>u_id = Some 7, u_ownerId = 3, u_name = ''Alice'', u_password = None,
          u_email = ''alice@example.com'', u_role = EMPLOYEE, u_createdAt = Some 100\<rparr>)
   \<and> od_password john = ''SecurePass123!''
   \<and> fst (createOwnerWithFirebase john 9 w_empty) =
       Inr \<lparr>o_id = Some 9, o_name = ''John Doe'', o_email = ''john@example.com'',
            o_role = Some OWNER, o_createdAt = Some 100\<rparr>
   \<and> ''password'' \<notin> set (IOwner_keys
         \<lparr>o_id = Some 9, o_name = ''John Doe'', o_email = ''john@example.com'',
          o_role = Some OWNER, o_createdAt = Some 100\<rparr>)"
  using created_record_has_no_password
    [of alice 7 w_empty
        "\<lparr>u_id = Some 7, u_ownerId = 3, u_name = ''Alice'', u_password = None,
          u_email = ''alice@example.com'', u_role = EMPLOYEE, u_createdAt = Some 100\<rparr>"
        john 9 w_empty
        "\<lparr>o_id = Some 9, o_name = ''John Doe'', o_email = ''john@example.com'',
          o_role = Some OWNER, o_createdAt = Some 100\<rparr>"]
  by (simp add: run_defs input_defs)

section \<open>No workflow sets custom claims\<close>

text \<open>
  Claim C10. None of the four orchestrator workflows (create and delete, User and
  Owner) calls \<^verbatim>\<open>setCustomUserClaims\<close>: the \<^verbatim>\<open>setCustomUserClaims\<close> calls the
  identity provider has received are the same after the workflow as before, so no role
  claim is attached to an identity the workflow creates. \<^verbatim>\<open>updateUserRole\<close> makes
  no call to the identity provider at all.
\<close>

theorem workflows_never_set_custom_claims:
  "filter is_setCustomUserClaims (idp_calls (snd (createEmployeeWithFirebase data userId w)))
     = filter is_setCustomUserClaims (idp_calls w)
   \<and> filter is_setCustomUserClaims (idp_calls (snd (createOwnerWithFirebase odata ownerId w)))
     = filter is_setCustomUserClaims (idp_calls w)
   \<and> filter is_setCustomUserClaims (idp_calls (snd (deleteUser i w)))
     = filter is_setCustomUserClaims (idp_calls w)
   \<and> filter is_setCustomUserClaims (idp_calls (snd (deleteOwner i w)))
     = filter is_setCustomUserClaims (idp_calls w)
   \<and> idp_calls (snd (UserService_updateUserRole i r w)) = idp_calls w"
proof (intro conjI)
  show "filter is_setCustomUserClaims
          (idp_calls (snd (createEmployeeWithFirebase data userId w)))
     = filter is_setCustomUserClaims (idp_calls w)"
    using createEmployeeWithFirebase_calls [of data userId w] by auto
  show "filter is_setCustomUserClaims
          (idp_calls (snd (createOwnerWithFirebase odata ownerId w)))
     = filter is_setCustomUserClaims (idp_calls w)"
    using createOwnerWithFirebase_calls [of odata ownerId w] by auto
  show "filter is_setCustomUserClaims (idp_calls (snd (deleteUser i w)))
     = filter is_setCustomUserClaims (idp_calls w)"
    using deleteUser_calls [of i w] by auto
  show "filter is_setCustomUserClaims (idp_calls (snd (deleteOwner i w)))
     = filter is_setCustomUserClaims (idp_calls w)"
    using deleteOwner_calls [of i w] by auto
  show "idp_calls (snd (UserService_updateUserRole i r w)) = idp_calls w"
    using UserService_updateUserRole_frame [of i r w]
    by (cases "UserService_updateUserRole i r w") auto
qed

section \<open>The owner deletion handler\<close>

text \<open>
  Claim C9. \<^verbatim>\<open>OwnerController.delete\<close> starts \<^verbatim>\<open>deleteOwner\<close> and answers
  204 No Content with no body, for every id and every state of the stores and of the
  identity provider: whether the workflow ends well, or with the error for a missing
  owner, the delete failure or the data inconsistency, the response is the same. The
  workflow's effect on the stores is still the one of \<^verbatim>\<open>deleteOwner\<close>.
\<close>

theorem owner_delete_always_responds_204:
  "fst (OwnerController_delete i w) = \<lparr>status = 204, body = None\<rparr>
   \<and> snd (OwnerController_delete i w) = snd (deleteOwner i w)"
  by (simp add: OwnerController_delete_def split: prod.splits)

text \<open>
  No owner has the id 9, the workflow fails, and the handler answers 204 all the same.
\<close>

lemma owner_delete_missing_owner_example:
  "fst (deleteOwner 9 w_accounts) = Inl (ApiError 500 ''Failed to delete user'')
   \<and> fst (OwnerController_delete 9 w_accounts) = \<lparr>status = 204, body = None\<rparr>"
  by (simp add: OwnerController_delete_def run_defs input_defs)

section \<open>A failed recreation is a data inconsistency\<close>

text \<open>
  Claim C6. In a delete workflow (User or Owner), when the record was fetched and
  deleted locally and the identity provider's delete then failed, the workflow recreates
  the local record and raises an error in either case: the data-inconsistency error
  when the recreation failed as well, the ordinary delete failure when it succeeded.
  The two errors have different messages.
\<close>

theorem failed_recreation_raises_data_inconsistency:
  "(UserService_getUserById i w = (Inr user, w1)
      \<and> UserService_deleteUser i w1 = (Inr u, w2)
      \<and> Firebase_deleteUser i w2 = (Inl e, w3)
      \<and> UserService_createUser (user_snapshot user) w3 = (recreated, w4)
    \<longrightarrow> deleteUser i w =
          (Inl (case recreated of Inl rollbackError \<Rightarrow> data_inconsistency
                | Inr r \<Rightarrow> failed_to_delete), w4))
   \<and> (OwnerService_getOwnerById j v = (Inr owner, v1)
      \<and> OwnerService_deleteOwner j v1 = (Inr u', v2)
      \<and> Firebase_deleteUser j v2 = (Inl e', v3)
      \<and> OwnerService_createOwner (owner_snapshot owner) v3 = (recreated', v4)
    \<longrightarrow> deleteOwner j v =
          (Inl (case recreated' of Inl rollbackError \<Rightarrow> data_inconsistency
                | Inr r \<Rightarrow> failed_to_delete), v4))
   \<and> message data_inconsistency \<noteq> message failed_to_delete"
  by (simp add: deleteUser_def deleteOwner_def data_inconsistency_def failed_to_delete_def
      split: sum.splits)

text \<open>
  Alice, then John, is deleted while the identity provider and then the store fail:
  the fetch and the local delete go through, Firebase refuses, and the
  \<^verbatim>\<open>findOne\<close> of the recreation is rejected.
\<close>

theorem failed_recreation_raises_data_inconsistency_witness:
  "UserService_getUserById 7 (w_accounts\<lparr>script := identity_then_store_down\<rparr>) =
     (Inr alice_obj,
      w_accounts\<lparr>clock := 101, script := [(Succeeds, 1), (Fails, 1), (Fails, 1)]\<rparr>)
   \<and> UserService_deleteUser 7
       (w_accounts\<lparr>clock := 101, script := [(Succeeds, 1), (Fails, 1), (Fails, 1)]\<rparr>) =
     (Inr (), w_accounts\<lparr>users := [], clock := 102, script := [(Fails, 1), (Fails, 1)]\<rparr>)
   \<and> Firebase_deleteUser 7
       (w_accounts\<lparr>users := [], clock := 102, script := [(Fails, 1), (Fails, 1)]\<rparr>) =
     (Inl auth_error,
      w_accounts\<lparr>users := [], idp_calls := [AuthDeleteUser 7], clock := 103,
                 script := [(Fails, 1)]\<rparr>)
   \<and> UserService_createUser (user_snapshot alice_obj)
       (w_accounts\<lparr>users := [], idp_calls := [AuthDeleteUser 7], clock := 103,
                  script := [(Fails, 1)]\<rparr>) =
     (Inl unreachable,
      w_accounts\<lparr>users := [], idp_calls := [AuthDeleteUser 7], clock := 104, script := []\<rparr>)
   \<and> deleteUser 7 (w_accounts\<lparr>script := identity_then_store_down\<rparr>) =
     (Inl data_inconsistency,
      w_accounts\<lparr>users := [], idp_calls := [AuthDeleteUser 7], clock := 104, script := []\<rparr>)
   \<and> OwnerService_getOwnerById 3 (w_accounts\<lparr>script := identity_then_store_down\<rparr>) =
     (Inr john_obj,
      w_accounts\<lparr>clock := 101, script := [(Succeeds, 1), (Fails, 1), (Fails, 1)]\<rparr>)
   \<and> OwnerService_deleteOwner 3
       (w_accounts\<lparr>clock := 101, script := [(Succeeds, 1), (Fails, 1), (Fails, 1)]\<rparr>) =
     (Inr (), w_accounts\<lparr>owners := [], clock := 102, script := [(Fails, 1), (Fails, 1)]\<rparr>)
   \<and> Firebase_deleteUser 3
       (w_accounts\<lparr>owners := [], clock := 102, script := [(Fails, 1), (Fails, 1)]\<rparr>) =
     (Inl auth_error,
      w_accounts\<lparr>owners := [], idp_calls := [AuthDeleteUser 3], clock := 103,
                 script := [(Fails, 1)]\<rparr>)
   \<and> OwnerService_createOwner (owner_snapshot john_obj)
       (w_accounts\<lparr>owners := [], idp_calls := [AuthDeleteUser 3], clock := 103,
                  script := [(Fails, 1)]\<rparr>) =
     (Inl unreachable,
      w_accounts\<lparr>owners := [], idp_calls := [AuthDeleteUser 3], clock := 104, script := []\<rparr>)
   \<and> deleteOwner 3 (w_accounts\<lparr>script := identity_then_store_down\<rparr>) =
     (Inl data_inconsistency,
      w_accounts\<lparr>owners := [], idp_calls := [AuthDeleteUser 3], clock := 104, script := []\<rparr>)
   \<and> message data_inconsistency \<noteq> message failed_to_delete"
  using failed_recreation_raises_data_inconsistency
    [of 7 "w_accounts\<lparr>script := identity_then_store_down\<rparr>" alice_obj
        "w_accounts\<lparr>clock := 101, script := [(Succeeds, 1), (Fails, 1), (Fails, 1)]\<rparr>"
        "()"
        "w_accounts\<lparr>users := [], clock := 102, script := [(Fails, 1), (Fails, 1)]\<rparr>"
        auth_error
        "w_accounts\<lparr>users := [], idp_calls := [AuthDeleteUser 7], clock := 103,
                   script := [(Fails, 1)]\<rparr>"
        "Inl unreachable"
        "w_accounts\<lparr>users := [], idp_calls := [AuthDeleteUser 7], clock := 104,
                   script := []\<rparr>"
        3 "w_accounts\<lparr>script := identity_then_store_down\<rparr>" john_obj
        "w_accounts\<lparr>clock := 101, script := [(Succeeds, 1), (Fails, 1), (Fails, 1)]\<rparr>"
        "()"
        "w_accounts\<lparr>owners := [], clock := 102, script := [(Fails, 1), (Fails, 1)]\<rparr>"
        auth_error
        "w_accounts\<lparr>owners := [], idp_calls := [AuthDeleteUser 3], clock := 103,
                   script := [(Fails, 1)]\<rparr>"
        "Inl unreachable"
        "w_accounts\<lparr>owners := [], idp_calls := [AuthDeleteUser 3], clock := 104,
                   script := []\<rparr>"]
  by (simp add: run_defs input_defs)

section \<open>What the delete rollback restores\<close>

text \<open>
  Claim C2 says that after a delete whose identity-provider step failed and whose
  recreation succeeded, the local record has all the field values of the snapshot
  fetched before the delete, the creation timestamp included. The recreation hands
  \<^verbatim>\<open>createUser\<close> (or \<^verbatim>\<open>createOwner\<close>) the id, owner reference, name, email and
  role only, so the store stamps the record anew. Alice was created at 50; she is
  deleted at a moment when Firebase refuses, the recreation goes through at 103, and
  the record read back afterwards carries 103.
\<close>

theorem delete_rollback_timestamp_counterexample:
  "UserService_getUserById 7 (w_accounts\<lparr>script := identity_down\<rparr>) =
     (Inr alice_obj, w_accounts\<lparr>clock := 101, script := [(Succeeds, 1), (Fails, 1)]\<rparr>)
   \<and> UserService_deleteUser 7
       (w_accounts\<lparr>clock := 101, script := [(Succeeds, 1), (Fails, 1)]\<rparr>) =
     (Inr (), w_accounts\<lparr>users := [], clock := 102, script := [(Fails, 1)]\<rparr>)
   \<and> Firebase_deleteUser 7 (w_accounts\<lparr>users := [], clock := 102, script := [(Fails, 1)]\<rparr>) =
     (Inl auth_error,
      w_accounts\<lparr>users := [], idp_calls := [AuthDeleteUser 7], clock := 103, script := []\<rparr>)
   \<and> fst (UserService_createUser (user_snapshot alice_obj)
       (w_accounts\<lparr>users := [], idp_calls := [AuthDeleteUser 7], clock := 103,
                  script := []\<rparr>)) =
     Inr (alice_obj\<lparr>u_createdAt := Some 103\<rparr>)
   \<and> fst (deleteUser 7 (w_accounts\<lparr>script := identity_down\<rparr>)) = Inl failed_to_delete
   \<and> fst (UserService_getUserById 7 (snd (deleteUser 7 (w_accounts\<lparr>script := identity_down\<rparr>)))) =
     Inr (alice_obj\<lparr>u_createdAt := Some 103\<rparr>)
   \<and> u_createdAt alice_obj = Some 50
   \<and> alice_obj\<lparr>u_createdAt := Some 103\<rparr> \<noteq> alice_obj"
  by (simp add: run_defs input_defs)

text \<open>
  Claim C2, amended. In a delete workflow (User or Owner), when the record was fetched
  and deleted locally, the identity provider's delete then failed and the recreation of
  the local record succeeded, the workflow raises the ordinary delete failure, and the
  record stored under the id afterwards has the id, the owner reference (for a User),
  the name, the email and the role of the fetched snapshot; its creation timestamp is
  the time of the recreation, not the snapshot's.
\<close>

theorem delete_rollback_restores_listed_fields:
  "(UserService_getUserById i w = (Inr user, w1)
      \<and> UserService_deleteUser i w1 = (Inr u, w2)
      \<and> Firebase_deleteUser i w2 = (Inl e, w3)
      \<and> UserService_createUser (user_snapshot user) w3 = (Inr r, w4)
    \<longrightarrow> deleteUser i w = (Inl failed_to_delete, w4)
        \<and> map_option User_toObject (find (\<lambda>d. ud_id d = i) (users w4))
            = Some (user\<lparr>u_createdAt := Some (clock w4)\<rparr>))
   \<and> (OwnerService_getOwnerById j v = (Inr owner, v1)
      \<and> OwnerService_deleteOwner j v1 = (Inr u', v2)
      \<and> Firebase_deleteUser j v2 = (Inl e', v3)
      \<and> OwnerService_createOwner (owner_snapshot owner) v3 = (Inr r', v4)
    \<longrightarrow> deleteOwner j v = (Inl failed_to_delete, v4)
        \<and> map_option Owner_toObject (find (\<lambda>d. wd_id d = j) (owners v4))
            = Some (owner\<lparr>o_createdAt := Some (clock v4)\<rparr>))"
proof (intro conjI impI; elim conjE)
  assume get: "UserService_getUserById i w = (Inr user, w1)"
    and del: "UserService_deleteUser i w1 = (Inr u, w2)"
    and idp: "Firebase_deleteUser i w2 = (Inl e, w3)"
    and rec: "UserService_createUser (user_snapshot user) w3 = (Inr r, w4)"
  show "deleteUser i w = (Inl failed_to_delete, w4)"
    using get del idp rec by (simp add: deleteUser_def)
  from get obtain d
    where d: "find (\<lambda>d. ud_id d = i) (users w) = Some d" "user = User_toObject d"
    using UserService_getUserById_Inr by blast
  from d(1) have "ud_id d = i" by (rule find_Some_holds)
  with d(2) have uid: "u_id (user_snapshot user) = Some i"
    by (simp add: user_snapshot_def User_toObject_def)
  from UserService_createUser_Inr [OF rec] uid
  have fresh: "find (\<lambda>d. ud_id d = i) (users w3) = None"
    and us: "users w4 = users w3 @
             [\<lparr>ud_id = i, ud_name = u_name (user_snapshot user),
               ud_ownerId = u_ownerId (user_snapshot user),
               ud_email = u_email (user_snapshot user),
               ud_role = u_role (user_snapshot user),
               ud_createdAt =
                 (case u_createdAt (user_snapshot user) of None \<Rightarrow> clock w4 | Some c \<Rightarrow> c),
               ud_updatedAt = clock w4\<rparr>]"
    by auto
  show "map_option User_toObject (find (\<lambda>d. ud_id d = i) (users w4))
            = Some (user\<lparr>u_createdAt := Some (clock w4)\<rparr>)"
    using \<open>ud_id d = i\<close> d(2)
    by (simp add: us find_snoc_fresh [OF fresh] user_snapshot_def User_toObject_def)
next
  assume get: "OwnerService_getOwnerById j v = (Inr owner, v1)"
    and del: "OwnerService_deleteOwner j v1 = (Inr u', v2)"
    and idp: "Firebase_deleteUser j v2 = (Inl e', v3)"
    and rec: "OwnerService_createOwner (owner_snapshot owner) v3 = (Inr r', v4)"
  show "deleteOwner j v = (Inl failed_to_delete, v4)"
    using get del idp rec by (simp add: deleteOwner_def)
  from get obtain d
    where d: "find (\<lambda>d. wd_id d = j) (owners v) = Some d" "owner = Owner_toObject d"
    using OwnerService_getOwnerById_Inr by blast
  from d(1) have "wd_id d = j" by (rule find_Some_holds)
  with d(2) have oid: "o_id (owner_snapshot owner) = Some j"
    by (simp add: owner_snapshot_def Owner_toObject_def)
  from OwnerService_createOwner_Inr [OF rec] oid
  have fresh: "find (\<lambda>d. wd_id d = j) (owners v3) = None"
    and os: "owners v4 = owners v3 @
             [\<lparr>wd_id = j, wd_name = o_name (owner_snapshot owner),
               wd_email = o_email (owner_snapshot owner),
               wd_role = (case o_role (owner_snapshot owner) of None \<Rightarrow> OWNER | Some r \<Rightarrow> r),
               wd_createdAt =
                 (case o_createdAt (owner_snapshot owner) of None \<Rightarrow> clock v4 | Some c \<Rightarrow> c),
               wd_updatedAt = clock v4\<rparr>]"
    by auto
  have role: "wd_role d = OWNER" by (cases "wd_role d") simp
  show "map_option Owner_toObject (find (\<lambda>d. wd_id d = j) (owners v4))
            = Some (owner\<lparr>o_createdAt := Some (clock v4)\<rparr>)"
    using \<open>wd_id d = j\<close> d(2) role
    by (simp add: os find_snoc_fresh [OF fresh] owner_snapshot_def Owner_toObject_def)
qed

text \<open>
  Alice, then John, is deleted while Firebase refuses; the recreation goes through at
  103 and the record is back with its fields, stamped 103.
\<close>

theorem delete_rollback_restores_listed_fields_witness:
  "UserService_getUserById 7 (w_accounts\<lparr>script := identity_down\<rparr>) =
     (Inr alice_obj, w_accounts\<lparr>clock := 101, script := [(Succeeds, 1), (Fails, 1)]\<rparr>)
   \<and> UserService_deleteUser 7
       (w_accounts\<lparr>clock := 101, script := [(Succeeds, 1), (Fails, 1)]\<rparr>) =
     (Inr (), w_accounts\<lparr>users := [], clock := 102, script := [(Fails, 1)]\<rparr>)
   \<and> Firebase_deleteUser 7 (w_accounts\<lparr>users := [], clock := 102, script := [(Fails, 1)]\<rparr>) =
     (Inl auth_error,
      w_accounts\<lparr>users := [], idp_calls := [AuthDeleteUser 7], clock := 103, script := []\<rparr>)
   \<and> UserService_createUser (user_snapshot alice_obj)
       (w_accounts\<lparr>users := [], idp_calls := [AuthDeleteUser 7], clock := 103,
                  script := []\<rparr>) =
     (Inr (alice_obj\<lparr>u_createdAt := Some 103\<rparr>),
      w_accounts\<lparr>users := [alice_doc\<lparr>ud_createdAt := 103, ud_updatedAt := 103\<rparr>],
                 idp_calls := [AuthDeleteUser 7], clock := 103, script := []\<rparr>)
   \<and> deleteUser 7 (w_accounts\<lparr>script := identity_down\<rparr>) =
     (Inl failed_to_delete,
      w_accounts\<lparr>users := [alice_doc\<lparr>ud_createdAt := 103, ud_updatedAt := 103\<rparr>],
                 idp_calls := [AuthDeleteUser 7], clock := 103, script := []\<rparr>)
   \<and> map_option User_toObject
       (find (\<lambda>d. ud_id d = 7) [alice_doc\<lparr>ud_createdAt := 103, ud_updatedAt := 103\<rparr>]) =
     Some (alice_obj\<lparr>u_createdAt := Some 103\<rparr>)
   \<and> OwnerService_getOwnerById 3 (w_accounts\<lparr>script := identity_down\<rparr>) =
     (Inr john_obj, w_accounts\<lparr>clock := 101, script := [(Succeeds, 1), (Fails, 1)]\<rparr>)
   \<and> OwnerService_deleteOwner 3
       (w_accounts\<lparr>clock := 101, script := [(Succeeds, 1), (Fails, 1)]\<rparr>) =
     (Inr (), w_accounts\<lparr>owners := [], clock := 102, script := [(Fails, 1)]\<rparr>)
   \<and> Firebase_deleteUser 3 (w_accounts\<lparr>owners := [], clock := 102, script := [(Fails, 1)]\<rparr>) =
     (Inl auth_error,
      w_accounts\<lparr>owners := [], idp_calls := [AuthDeleteUser 3], clock := 103, script := []\<rparr>)
   \<and> OwnerService_createOwner (owner_snapshot john_obj)
       (w_accounts\<lparr>owners := [], idp_calls := [AuthDeleteUser 3], clock := 103,
                  script := []\<rparr>) =
     (Inr (john_obj\<lparr>o_createdAt := Some 103\<rparr>),
      w_accounts\<lparr>owners := [john_doc\<lparr>wd_createdAt := 103, wd_updatedAt := 103\<rparr>],
                 idp_calls := [AuthDeleteUser 3], clock := 103, script := []\<rparr>)
   \<and> deleteOwner 3 (w_accounts\<lparr>script := identity_down\<rparr>) =
     (Inl failed_to_delete,
      w_accounts\<lparr>owners := [john_doc\<lparr>wd_createdAt := 103, wd_updatedAt := 103\<rparr>],
                 idp_calls := [AuthDeleteUser 3], clock := 103, script := []\<rparr>)
   \<and> map_option Owner_toObject
       (find (\<lambda>d. wd_id d = 3) [john_doc\<lparr>wd_createdAt := 103, wd_updatedAt := 103\<rparr>]) =
     Some (john_obj\<lparr>o_createdAt := Some 103\<rparr>)"
  using delete_rollback_restores_listed_fields
    [of 7 "w_accounts\<lparr>script := identity_down\<rparr>" alice_obj
        "w_accounts\<lparr>clock := 101, script := [(Succeeds, 1), (Fails, 1)]\<rparr>"
        "()"
        "w_accounts\<lparr>users := [], clock := 102, script := [(Fails, 1)]\<rparr>"
        auth_error
        "w_accounts\<lparr>users := [], idp_calls := [AuthDeleteUser 7], clock := 103,
                   script := []\<rparr>"
        "alice_obj\<lparr>u_createdAt := Some 103\<rparr>"
        "w_accounts\<lparr>users := [alice_doc\<lparr>ud_createdAt := 103, ud_updatedAt := 103\<rparr>],
                   idp_calls := [AuthDeleteUser 7], clock := 103, script := []\<rparr>"
        3 "w_accounts\<lparr>script := identity_down\<rparr>" john_obj
        "w_accounts\<lparr>clock := 101, script := [(Succeeds, 1), (Fails, 1)]\<rparr>"
        "()"
        "w_accounts\<lparr>owners := [], clock := 102, script := [(Fails, 1)]\<rparr>"
        auth_error
        "w_accounts\<lparr>owners := [], idp_calls := [AuthDeleteUser 3], clock := 103,
                   script := []\<rparr>"
        "john_obj\<lparr>o_createdAt := Some 103\<rparr>"
        "w_accounts\<lparr>owners := [john_doc\<lparr>wd_createdAt := 103, wd_updatedAt := 103\<rparr>],
                   idp_calls := [AuthDeleteUser 3], clock := 103, script := []\<rparr>"]
  by (simp add: run_defs input_defs)

section \<open>The error of a failed identity creation\<close>

text \<open>
  Claim C5 says that a create workflow whose identity-provider step failed raises the
  generic creation failure whether the compensating delete succeeds or fails. The
  compensating delete runs inside the \<^verbatim>\<open>catch\<close> block with nothing around it, so
  when it throws, its error is the one that leaves the workflow. Alice is created,
  Firebase refuses her, and the \<^verbatim>\<open>findByIdAndDelete\<close> of the compensation is
  rejected by the driver: the caller gets the driver's error, and Alice stays stored.
\<close>

theorem failed_compensation_error_counterexample:
  "UserService_createUser
     \<lparr>u_id = Some 7, u_ownerId = u_ownerId alice, u_name = u_name alice,
      u_password = None, u_email = u_email alice, u_role = u_role alice,
      u_createdAt = None\<rparr> (w_empty\<lparr>script := identity_then_store_down\<rparr>) =
     (Inr (alice_obj\<lparr>u_createdAt := Some 102\<rparr>),
      w_empty\<lparr>users := [alice_doc\<lparr>ud_createdAt := 102, ud_updatedAt := 102\<rparr>],
              clock := 102, script := [(Fails, 1), (Fails, 1)]\<rparr>)
   \<and> Firebase_createUser
       \<lparr>fb_uid = 7, fb_email = u_email alice, fb_password = u_password alice,
        fb_displayName = u_name alice\<rparr>
       (w_empty\<lparr>users := [alice_doc\<lparr>ud_createdAt := 102, ud_updatedAt := 102\<rparr>],
               clock := 102, script := [(Fails, 1), (Fails, 1)]\<rparr>) =
     (Inl auth_error,
      w_empty\<lparr>users := [alice_doc\<lparr>ud_createdAt := 102, ud_updatedAt := 102\<rparr>],
              idp_calls := [AuthCreateUser 7 ''alice@example.com''
                              (Some ''SecurePass123!'') ''Alice''],
              clock := 103, script := [(Fails, 1)]\<rparr>)
   \<and> fst (UserService_deleteUser 7
       (w_empty\<lparr>users := [alice_doc\<lparr>ud_createdAt := 102, ud_updatedAt := 102\<rparr>],
               idp_calls := [AuthCreateUser 7 ''alice@example.com''
                               (Some ''SecurePass123!'') ''Alice''],
               clock := 103, script := [(Fails, 1)]\<rparr>)) =
     Inl (MongoError ''MongoNetworkError'')
   \<and> fst (createEmployeeWithFirebase alice 7 (w_empty\<lparr>script := identity_then_store_down\<rparr>)) =
     Inl (MongoError ''MongoNetworkError'')
   \<and> failed_to_create = ApiError 500 ''Failed to create user''
   \<and> users (snd (createEmployeeWithFirebase alice 7
                   (w_empty\<lparr>script := identity_then_store_down\<rparr>))) =
     [alice_doc\<lparr>ud_createdAt := 102, ud_updatedAt := 102\<rparr>]"
  by (simp add: run_defs input_defs)

text \<open>
  Claim C5, amended, for the User create workflow. When the local record was created
  and the identity provider's creation then failed, the workflow deletes the local
  record again; it raises the generic creation failure when that delete succeeded, and
  the error of the delete itself when the delete failed.
\<close>

theorem failed_identity_creation_error:
  "UserService_createUser
      \<lparr>u_id = Some userId, u_ownerId = u_ownerId data, u_name = u_name data,
       u_password = None, u_email = u_email data, u_role = u_role data,
       u_createdAt = None\<rparr> w = (Inr createdUser, w1)
   \<and> Firebase_createUser
        \<lparr>fb_uid = userId, fb_email = u_email data,
         fb_password = u_password data, fb_displayName = u_name data\<rparr> w1 = (Inl e, w2)
   \<and> UserService_deleteUser userId w2 = (rolledBack, w3)
   \<longrightarrow> createEmployeeWithFirebase data userId w =
         (Inl (case rolledBack of Inl e' \<Rightarrow> e' | Inr u \<Rightarrow> failed_to_create), w3)"
  by (simp add: createEmployeeWithFirebase_def split: sum.splits)

text \<open>Alice is created, Firebase refuses her, and the compensating delete goes through.\<close>

theorem failed_identity_creation_error_witness:
  "UserService_createUser
     \<lparr>u_id = Some 7, u_ownerId = u_ownerId alice, u_name = u_name alice,
      u_password = None, u_email = u_email alice, u_role = u_role alice,
      u_createdAt = None\<rparr> (w_empty\<lparr>script := identity_down\<rparr>) =
     (Inr (alice_obj\<lparr>u_createdAt := Some 102\<rparr>),
      w_empty\<lparr>users := [alice_doc\<lparr>ud_createdAt := 102, ud_updatedAt := 102\<rparr>],
              clock := 102, script := [(Fails, 1)]\<rparr>)
   \<and> Firebase_createUser
       \<lparr>fb_uid = 7, fb_email = u_email alice, fb_password = u_password alice,
        fb_displayName = u_name alice\<rparr>
       (w_empty\<lparr>users := [alice_doc\<lparr>ud_createdAt := 102, ud_updatedAt := 102\<rparr>],
               clock := 102, script := [(Fails, 1)]\<rparr>) =
     (Inl auth_error,
      w_empty\<lparr>users := [alice_doc\<lparr>ud_createdAt := 102, ud_updatedAt := 102\<rparr>],
              idp_calls := [AuthCreateUser 7 ''alice@example.com''
                              (Some ''SecurePass123!'') ''Alice''],
              clock := 103\<rparr>)
   \<and> UserService_deleteUser 7
       (w_empty\<lparr>users := [alice_doc\<lparr>ud_createdAt := 102, ud_updatedAt := 102\<rparr>],
               idp_calls := [AuthCreateUser 7 ''alice@example.com''
                               (Some ''SecurePass123!'') ''Alice''],
               clock := 103\<rparr>) =
     (Inr (),
      w_empty\<lparr>idp_calls := [AuthCreateUser 7 ''alice@example.com''
                              (Some ''SecurePass123!'') ''Alice''],
              clock := 103\<rparr>)
   \<and> createEmployeeWithFirebase alice 7 (w_empty\<lparr>script := identity_down\<rparr>) =
     (Inl failed_to_create,
      w_empty\<lparr>idp_calls := [AuthCreateUser 7 ''alice@example.com''
                              (Some ''SecurePass123!'') ''Alice''],
              clock := 103\<rparr>)"
  using failed_identity_creation_error
    [of 7 alice "w_empty\<lparr>script := identity_down\<rparr>"
        "alice_obj\<lparr>u_createdAt := Some 102\<rparr>"
        "w_empty\<lparr>users := [alice_doc\<lparr>ud_createdAt := 102, ud_updatedAt := 102\<rparr>],
                clock := 102, script := [(Fails, 1)]\<rparr>"
        auth_error
        "w_empty\<lparr>users := [alice_doc\<lparr>ud_createdAt := 102, ud_updatedAt := 102\<rparr>],
                idp_calls := [AuthCreateUser 7 ''alice@example.com''
                                (Some ''SecurePass123!'') ''Alice''],
                clock := 103\<rparr>"
        "Inr ()"
        "w_empty\<lparr>idp_calls := [AuthCreateUser 7 ''alice@example.com''
                                (Some ''SecurePass123!'') ''Alice''],
                clock := 103\<rparr>"]
  by (simp add: run_defs input_defs)

section \<open>The create rollback\<close>

lemma remove_user_snoc_fresh:
  "find (\<lambda>d. ud_id d = i) xs = None \<Longrightarrow> ud_id x = i \<Longrightarrow> remove_user i (xs @ [x]) = xs"
  by (induction xs) (auto split: if_splits)

text \<open>
  The User workflow: when Firebase refuses the new user and the compensating delete
  goes through, the users are what they were before and none has the new id.
\<close>

lemma user_create_rollback_removes_record:
  assumes "UserService_createUser
             \<lparr>u_id = Some userId, u_ownerId = u_ownerId data, u_name = u_name data,
              u_password = None, u_email = u_email data, u_role = u_role data,
              u_createdAt = None\<rparr> w = (Inr createdUser, w1)"
    and "Firebase_createUser
           \<lparr>fb_uid = userId, fb_email = u_email data,
            fb_password = u_password data, fb_displayName = u_name data\<rparr> w1 = (Inl e, w2)"
    and "UserService_deleteUser userId w2 = (Inr u, w3)"
  shows "createEmployeeWithFirebase data userId w = (Inl failed_to_create, w3)"
    and "find (\<lambda>d. ud_id d = userId) (users w3) = None"
    and "users w3 = users w"
proof -
  show "createEmployeeWithFirebase data userId w = (Inl failed_to_create, w3)"
    using assms by (simp add: createEmployeeWithFirebase_def)
  from UserService_createUser_Inr [OF assms(1)]
  have fresh: "find (\<lambda>d. ud_id d = userId) (users w) = None"
    and us: "\<exists>d. ud_id d = userId \<and> users w1 = users w @ [d]"
    by auto
  from Firebase_createUser_frame [OF assms(2)] have "users w2 = users w1" by simp
  moreover from UserService_deleteUser_Inr [OF assms(3)]
  have "users w3 = remove_user userId (users w2)" by simp
  ultimately show "users w3 = users w"
    using us fresh by (auto simp: remove_user_snoc_fresh)
  then show "find (\<lambda>d. ud_id d = userId) (users w3) = None"
    using fresh by simp
qed

text \<open>
  The Owner workflow: when Firebase refuses the new owner, the owner record is still
  stored when the workflow ends, whatever the compensation did. The \<^verbatim>\<open>catch\<close>
  block calls \<^verbatim>\<open>UserService.deleteUser\<close>, which works on the users.
\<close>

lemma owner_create_failure_keeps_record:
  assumes "OwnerService_createOwner
             \<lparr>o_id = Some userId, o_name = od_name data, o_email = od_email data,
              o_role = None, o_createdAt = None\<rparr> w = (Inr createdOwner, w1)"
    and "Firebase_createUser
           \<lparr>fb_uid = userId, fb_email = od_email data,
            fb_password = Some (od_password data), fb_displayName = od_name data\<rparr> w1
         = (Inl e, w2)"
  shows "map_option Owner_toObject
           (find (\<lambda>d. wd_id d = userId)
              (owners (snd (createOwnerWithFirebase data userId w))))
         = Some createdOwner"
proof -
  from OwnerService_createOwner_Inr [OF assms(1)]
  have fresh: "find (\<lambda>d. wd_id d = userId) (owners w) = None"
    and os: "owners w1 = owners w @
               [\<lparr>wd_id = userId, wd_name = od_name data, wd_email = od_email data,
                 wd_role = OWNER, wd_createdAt = clock w1, wd_updatedAt = clock w1\<rparr>]"
    and obj: "createdOwner = Owner_toObject (last (owners w1))"
    by auto
  have stored: "find (\<lambda>d. wd_id d = userId) (owners w1) = Some (last (owners w1))"
    by (simp add: os find_snoc_fresh [OF fresh])
  from Firebase_createUser_frame [OF assms(2)] have w2: "owners w2 = owners w1" by simp
  obtain x w3 where del: "UserService_deleteUser userId w2 = (x, w3)"
    by (cases "UserService_deleteUser userId w2")
  then have "owners w3 = owners w2"
    by (cases x) (auto dest: UserService_deleteUser_Inl UserService_deleteUser_Inr)
  moreover have "snd (createOwnerWithFirebase data userId w) = w3"
    using assms del by (simp add: createOwnerWithFirebase_def split: sum.splits)
  ultimately show ?thesis using stored w2 obj by simp
qed

text \<open>
  Claim C1: after a create workflow whose identity-provider step failed and whose
  compensating delete succeeded, no local record has the generated id. The Owner
  workflow breaks it. John registers with the fresh id 9 and Firebase refuses him.
  Deleting the owner just created would go through, but the workflow calls
  \<^verbatim>\<open>UserService.deleteUser(9)\<close>: no user has the id 9, the call throws
  \<^verbatim>\<open>User not found\<close> (404), that error leaves the workflow, and the owner 9 is
  still there to be fetched. When a user does have the generated id (Mary gets Alice's
  7), the call succeeds, the workflow raises the generic failure, Alice is gone and the
  owner 7 is still stored.
\<close>

theorem owner_create_rollback_leaves_owner:
  "OwnerService_createOwner
     \<lparr>o_id = Some 9, o_name = od_name john, o_email = od_email john, o_role = None,
      o_createdAt = None\<rparr> (w_empty\<lparr>script := identity_down\<rparr>) =
     (Inr (john_obj\<lparr>o_id := Some 9, o_createdAt := Some 102\<rparr>),
      w_empty\<lparr>owners := [john_doc\<lparr>wd_id := 9, wd_createdAt := 102, wd_updatedAt := 102\<rparr>],
              clock := 102, script := [(Fails, 1)]\<rparr>)
   \<and> Firebase_createUser
       \<lparr>fb_uid = 9, fb_email = od_email john, fb_password = Some (od_password john),
        fb_displayName = od_name john\<rparr>
       (w_empty\<lparr>owners := [john_doc\<lparr>wd_id := 9, wd_createdAt := 102, wd_updatedAt := 102\<rparr>],
               clock := 102, script := [(Fails, 1)]\<rparr>) =
     (Inl auth_error,
      w_empty\<lparr>owners := [john_doc\<lparr>wd_id := 9, wd_createdAt := 102, wd_updatedAt := 102\<rparr>],
              idp_calls := [AuthCreateUser 9 ''john@example.com''
                              (Some ''SecurePass123!'') ''John Doe''],
              clock := 103\<rparr>)
   \<and> fst (OwnerService_deleteOwner 9
       (w_empty\<lparr>owners := [john_doc\<lparr>wd_id := 9, wd_createdAt := 102, wd_updatedAt := 102\<rparr>],
               idp_calls := [AuthCreateUser 9 ''john@example.com''
                               (Some ''SecurePass123!'') ''John Doe''],
               clock := 103\<rparr>)) = Inr ()
   \<and> createOwnerWithFirebase john 9 (w_empty\<lparr>script := identity_down\<rparr>) =
     (Inl (ApiError 404 ''User not found''),
      w_empty\<lparr>owners := [john_doc\<lparr>wd_id := 9, wd_createdAt := 102, wd_updatedAt := 102\<rparr>],
              idp_calls := [AuthCreateUser 9 ''john@example.com''
                              (Some ''SecurePass123!'') ''John Doe''],
              clock := 103\<rparr>)
   \<and> fst (OwnerService_getOwnerById 9
            (snd (createOwnerWithFirebase john 9 (w_empty\<lparr>script := identity_down\<rparr>)))) =
     Inr (john_obj\<lparr>o_id := Some 9, o_createdAt := Some 102\<rparr>)
   \<and> createOwnerWithFirebase mary 7 (w_accounts\<lparr>script := identity_down\<rparr>) =
     (Inl (ApiError 500 ''Failed to create user''),
      w_accounts\<lparr>users := [],
                 owners := [john_doc,
                            \<lparr>wd_id = 7, wd_name = ''Mary Roe'', wd_email = ''mary@example.com'',
                             wd_role = OWNER, wd_createdAt = 102, wd_updatedAt = 102\<rparr>],
                 idp_calls := [AuthCreateUser 7 ''mary@example.com''
                                 (Some ''SecurePass456!'') ''Mary Roe''],
                 clock := 103\<rparr>)
   \<and> fst (OwnerService_getOwnerById 7
            (snd (createOwnerWithFirebase mary 7 (w_accounts\<lparr>script := identity_down\<rparr>)))) =
     Inr \<lparr>o_id = Some 7, o_name = ''Mary Roe'', o_email = ''mary@example.com'',
          o_role = Some OWNER, o_createdAt = Some 102\<rparr>"
  by (simp add: run_defs input_defs mary_def)

section \<open>Errors before the first side effect\<close>

text \<open>
  Whatever the first service call of a workflow throws is caught by the workflow's own
  \<^verbatim>\<open>catch\<close> block and replaced: no record exists yet (or none was deleted yet), so
  nothing is compensated, no call reaches the identity provider, and the generic
  failure is raised in place of the service's error.
\<close>

lemma create_service_error_is_replaced:
  "UserService_createUser
      \<lparr>u_id = Some userId, u_ownerId = u_ownerId data, u_name = u_name data,
       u_password = None, u_email = u_email data, u_role = u_role data,
       u_createdAt = None\<rparr> w = (Inl e, w1)
   \<Longrightarrow> createEmployeeWithFirebase data userId w = (Inl failed_to_create, w1)"
  "OwnerService_createOwner
      \<lparr>o_id = Some ownerId, o_name = od_name odata, o_email = od_email odata,
       o_role = None, o_createdAt = None\<rparr> v = (Inl e', v1)
   \<Longrightarrow> createOwnerWithFirebase odata ownerId v = (Inl failed_to_create, v1)"
  by (simp_all add: createEmployeeWithFirebase_def createOwnerWithFirebase_def)

lemma delete_fetch_error_is_replaced:
  "UserService_getUserById i w = (Inl e, w1) \<Longrightarrow> deleteUser i w = (Inl failed_to_delete, w1)"
  "OwnerService_getOwnerById j v = (Inl e', v1) \<Longrightarrow> deleteOwner j v = (Inl failed_to_delete, v1)"
  by (simp_all add: deleteUser_def deleteOwner_def)

text \<open>
  Claim C3: when the service's create step fails, the create workflow stops before any
  identity-provider call, rolls nothing back, and lets that same error through to the
  caller. The first two hold; the error does not get through. A second Alice and a
  second John are refused by the services with \<^verbatim>\<open>409 User with this email already
  exists\<close>; the workflows leave the world as it is, call no identity provider, and raise
  \<^verbatim>\<open>500 Failed to create user\<close>.
\<close>

theorem create_conflict_is_replaced_by_500:
  "UserService_createUser
     \<lparr>u_id = Some 8, u_ownerId = u_ownerId alice, u_name = u_name alice,
      u_password = None, u_email = u_email alice, u_role = u_role alice,
      u_createdAt = None\<rparr> w_accounts =
     (Inl (ApiError 409 ''User with this email already exists''), w_accounts)
   \<and> createEmployeeWithFirebase alice 8 w_accounts =
     (Inl (ApiError 500 ''Failed to create user''), w_accounts)
   \<and> OwnerService_createOwner
     \<lparr>o_id = Some 9, o_name = od_name john, o_email = od_email john, o_role = None,
      o_createdAt = None\<rparr> w_accounts =
     (Inl (ApiError 409 ''User with this email already exists''), w_accounts)
   \<and> createOwnerWithFirebase john 9 w_accounts =
     (Inl (ApiError 500 ''Failed to create user''), w_accounts)"
  by (simp add: run_defs input_defs)

text \<open>
  Claim C4: a delete workflow called with an id that no local record has lets the
  \<^verbatim>\<open>NotFound\<close> of the fetch through to the caller and never calls the identity
  provider's delete. No call is made, but the error does not get through. No user and
  no owner has the id 9; the services answer \<^verbatim>\<open>404 User not found\<close>, and the
  workflows raise \<^verbatim>\<open>500 Failed to delete user\<close>.
\<close>

theorem delete_not_found_is_replaced_by_500:
  "UserService_getUserById 9 w_accounts = (Inl (ApiError 404 ''User not found''), w_accounts)
   \<and> deleteUser 9 w_accounts = (Inl (ApiError 500 ''Failed to delete user''), w_accounts)
   \<and> OwnerService_getOwnerById 9 w_accounts =
       (Inl (ApiError 404 ''User not found''), w_accounts)
   \<and> deleteOwner 9 w_accounts = (Inl (ApiError 500 ''Failed to delete user''), w_accounts)
   \<and> idp_calls w_accounts = []"
  by (simp add: run_defs input_defs)

end
